theory Spec2Isabelle
  imports Complex_Main "HOL-Library.AList"
begin

section \<open>Python values, exceptions and the random source\<close>

text \<open>
  A Python \<open>str\<close> is modelled by its UTF-8 bytes, a Python \<open>int\<close> by \<open>int\<close>.
  The values that travel through \<open>json.loads\<close> and \<open>json.dumps\<close> are the type \<open>pyval\<close>;
  a dict is an association list in insertion order.  A float is modelled by a text that
  denotes it (the text \<open>json.dumps\<close> prints for it): no statement below computes with floats.
\<close>

datatype pyval =
    PNone
  | PBool bool
  | PInt int
  | PFloat string
  | PStr string
  | PList "pyval list"
  | PDict "(string \<times> pyval) list"

datatype py_error = IndexError | ValueError | KeyError

text \<open>
  The module \<open>random\<close> is an oracle: an infinite sequence of raw draws, consumed from the
  front.  \<open>randbelow n\<close> is the library's \<open>_randbelow\<close> (a number below \<open>n\<close>, for \<open>0 < n\<close>),
  \<open>random_float\<close> is \<open>random.random()\<close> (a multiple of \<open>2^-53\<close> in \<open>[0, 1)\<close>), \<open>choice\<close> is
  \<open>random.choice\<close> (IndexError on an empty sequence), \<open>randint a b\<close> is \<open>random.randint\<close>.
\<close>

type_synonym rng = "nat \<Rightarrow> nat"

definition randbelow :: "nat \<Rightarrow> rng \<Rightarrow> nat \<times> rng" where
  "randbelow n g = (g 0 mod n, \<lambda>i. g (Suc i))"

definition random_float :: "rng \<Rightarrow> real \<times> rng" where
  "random_float g = (real (g 0 mod 2 ^ 53) / 2 ^ 53, \<lambda>i. g (Suc i))"

definition choice :: "'a list \<Rightarrow> rng \<Rightarrow> py_error + ('a \<times> rng)" where
  "choice xs g =
     (if xs = [] then Inl IndexError
      else case randbelow (length xs) g of (j, g1) \<Rightarrow> Inr (xs ! j, g1))"

definition randint :: "nat \<Rightarrow> nat \<Rightarrow> rng \<Rightarrow> nat \<times> rng" where
  "randint a b g = (case randbelow (b - a + 1) g of (j, g1) \<Rightarrow> (a + j, g1))"

text \<open>
  \<open>random.sample(population, 2)\<close>: ValueError when the population has fewer than two
  elements; otherwise the library's pool selection (draw a position, move the last element
  of the pool into it, draw again from the pool shortened by one).
\<close>

definition sample2 :: "'a list \<Rightarrow> rng \<Rightarrow> py_error + (('a \<times> 'a) \<times> rng)" where
  "sample2 population g =
     (let n = length population in
      if n < 2 then Inl ValueError
      else case randbelow n g of (j, g1) \<Rightarrow>
           (case randbelow (n - 1) g1 of (j2, g2) \<Rightarrow>
              Inr ((population ! j, (population[j := population ! (n - 1)]) ! j2), g2)))"

section \<open>generate\_synthetic\_data.py\<close>

text \<open>
  The three tables.  A DataFrame is the list of its rows; a row is a record of its columns.
  The columns \<open>user_id\<close>, \<open>text\<close>, \<open>timestamp\<close> and \<open>type\<close> of the posts and interactions
  tables carry a prefix here, since selector names are global.  The type parameter is the
  type of a date: the generator counts days from its start date, the dashboard reads the
  text of a CSV cell.
\<close>

record 'd user =
  user_id :: string
  age :: int
  account_type :: string
  created_at :: 'd

record 'd post =
  post_id :: string
  post_user_id :: string
  post_text :: string
  post_timestamp :: 'd

record 'd interaction =
  interaction_id :: string
  from_user :: string
  to_user :: string
  dm_type :: string
  dm_text :: string
  dm_timestamp :: 'd

text \<open>\<open>str(n)\<close> for a natural number, used by the f-strings \<open>u{i+1}\<close>, \<open>p{post_id}\<close>, \<open>i{i+1}\<close>.\<close>

definition digit_char :: "nat \<Rightarrow> char" where
  "digit_char d = char_of (48 + d)"

fun str_nat :: "nat \<Rightarrow> string" where
  "str_nat n = (if n < 10 then [digit_char n] else str_nat (n div 10) @ [digit_char (n mod 10)])"

declare str_nat.simps [simp del]

fun choices :: "'a list \<Rightarrow> nat \<Rightarrow> rng \<Rightarrow> py_error + ('a list \<times> rng)" where
  "choices pool 0 g = Inr ([], g)"
| "choices pool (Suc k) g =
     (case choice pool g of
        Inl e \<Rightarrow> Inl e
      | Inr (x, g1) \<Rightarrow>
          (case choices pool k g1 of
             Inl e \<Rightarrow> Inl e
           | Inr (xs, g2) \<Rightarrow> Inr (x # xs, g2)))"

definition generate_users :: "nat \<Rightarrow> rng \<Rightarrow> py_error + (nat user list \<times> rng)" where
  "generate_users n g =
     (let user_ids = map (\<lambda>i. ''u'' @ str_nat (i + 1)) [0..<n] in
      case choices [13, 14, 15, 16, 17, 18, 21, 25, 30] n g of
        Inl e \<Rightarrow> Inl e
      | Inr (ages, g1) \<Rightarrow>
          (case choices [''standard'', ''creator'', ''business''] n g1 of
             Inl e \<Rightarrow> Inl e
           | Inr (account_types, g2) \<Rightarrow>
               Inr (map (\<lambda>i. \<lparr>user_id = user_ids ! i, age = ages ! i,
                                account_type = account_types ! i, created_at = i\<rparr>) [0..<n],
                    g2)))"

definition risky_self_harm :: "string list" where
  "risky_self_harm =
     [''I feel like nothing matters anymore.'',
      ''Sometimes I just want to disappear.'',
      ''I have not eaten properly in days.'']"

definition risky_bully :: "string list" where
  "risky_bully =
     [''You are so ugly lol.'',
      ''Nobody likes you, just leave.'',
      ''You are a loser, everyone knows it.'']"

text \<open>The third text holds three characters outside ASCII; they are their UTF-8 bytes here.\<close>

definition risky_grooming :: "string list" where
  "risky_grooming =
     [''Don't tell your parents we talk here.'',
      ''Keep our chats secret okay?'',
      ''You can trust me, I''
        @ [CHR 0xC3, CHR 0xA2, CHR 0xE2, CHR 0x82, CHR 0xAC, CHR 0xE2, CHR 0x84, CHR 0xA2]
        @ ''m older and I know better.'']"

definition risky_substance :: "string list" where
  "risky_substance =
     [''Got so drunk last night lol.'',
      ''Trying pills for the first time haha.'',
      ''Smoking every day now, feels great.'']"

definition safe :: "string list" where
  "safe =
     [''Exam went well today.'',
      ''Had a great day with friends!'',
      ''Practicing for my football match.'',
      ''Studying hard for JEE.'',
      ''Watching movies with family.'']"

text \<open>
  \<open>sample_post_text\<close>: one draw of \<open>random.random()\<close> picks the pool, a second draw the
  text.  The thresholds are the decimal numbers of the source.
\<close>

definition sample_post_text :: "int \<Rightarrow> rng \<Rightarrow> py_error + (string \<times> rng)" where
  "sample_post_text user_age g =
     (case random_float g of (bucket, g1) \<Rightarrow>
        if user_age < 18 then
          (if bucket < 15 / 100 then choice risky_self_harm g1
           else if bucket < 3 / 10 then choice risky_bully g1
           else if bucket < 4 / 10 then choice risky_grooming g1
           else choice safe g1)
        else
          (if bucket < 15 / 100 then choice risky_substance g1
           else if bucket < 3 / 10 then choice risky_grooming g1
           else if bucket < 4 / 10 then choice risky_bully g1
           else choice safe g1))"

text \<open>
  \<open>generate_posts\<close>: for every row of the users table, \<open>posts_per_user\<close> posts; the counter
  \<open>post_id\<close> runs over all of them.  A timestamp is the number of days after \<open>start_ts\<close>.
\<close>

fun user_posts :: "nat user \<Rightarrow> nat \<Rightarrow> nat \<Rightarrow> rng \<Rightarrow> py_error + (nat post list \<times> rng)" where
  "user_posts row 0 pid g = Inr ([], g)"
| "user_posts row (Suc k) pid g =
     (case sample_post_text (age row) g of
        Inl e \<Rightarrow> Inl e
      | Inr (text, g1) \<Rightarrow>
          (case randint 0 60 g1 of (days, g2) \<Rightarrow>
             (case user_posts row k (pid + 1) g2 of
                Inl e \<Rightarrow> Inl e
              | Inr (rows, g3) \<Rightarrow>
                  Inr (\<lparr>post_id = ''p'' @ str_nat pid, post_user_id = user_id row,
                         post_text = text, post_timestamp = days\<rparr> # rows, g3))))"

fun posts_loop :: "nat user list \<Rightarrow> nat \<Rightarrow> nat \<Rightarrow> rng \<Rightarrow> py_error + (nat post list \<times> rng)" where
  "posts_loop [] posts_per_user pid g = Inr ([], g)"
| "posts_loop (row # rest) posts_per_user pid g =
     (case user_posts row posts_per_user pid g of
        Inl e \<Rightarrow> Inl e
      | Inr (rows, g1) \<Rightarrow>
          (case posts_loop rest posts_per_user (pid + posts_per_user) g1 of
             Inl e \<Rightarrow> Inl e
           | Inr (rows2, g2) \<Rightarrow> Inr (rows @ rows2, g2)))"

definition generate_posts :: "nat user list \<Rightarrow> nat \<Rightarrow> rng \<Rightarrow> py_error + (nat post list \<times> rng)" where
  "generate_posts users_df posts_per_user g = posts_loop users_df posts_per_user 1 g"

text \<open>
  \<open>generate_interactions\<close>.  \<open>ages\<close> is \<open>dict(zip(user_id, age))\<close>: of two rows with the same id
  the later one counts.  \<open>sample_dm_text\<close> ignores its two arguments, as in the source.
\<close>

definition risky :: "string list" where
  "risky =
     [''Don't tell anyone we talk here.'',
      ''I can send you pics but keep it secret.'',
      ''We should meet alone sometime.'']"

definition neutral :: "string list" where
  "neutral =
     [''Hey, how are your exams going?'',
      ''Let's play BGMI later.'',
      ''Did you finish the homework?'']"

definition sample_dm_text :: "string \<Rightarrow> string \<Rightarrow> rng \<Rightarrow> py_error + (string \<times> rng)" where
  "sample_dm_text older younger g =
     (case random_float g of (x, g1) \<Rightarrow> choice (if x < 4 / 10 then risky else neutral) g1)"

definition ages_dict :: "'d user list \<Rightarrow> string \<Rightarrow> int option" where
  "ages_dict users_df = map_of (rev (map (\<lambda>u. (user_id u, age u)) users_df))"

fun interactions_loop ::
  "string list \<Rightarrow> (string \<Rightarrow> int option) \<Rightarrow> nat \<Rightarrow> nat \<Rightarrow> rng
     \<Rightarrow> py_error + (nat interaction list \<times> rng)" where
  "interactions_loop user_ids ages i 0 g = Inr ([], g)"
| "interactions_loop user_ids ages i (Suc k) g =
     (case sample2 user_ids g of
        Inl e \<Rightarrow> Inl e
      | Inr ((u1, u2), g1) \<Rightarrow>
          (case ages u1 of
             None \<Rightarrow> Inl KeyError
           | Some a1 \<Rightarrow>
               (case ages u2 of
                  None \<Rightarrow> Inl KeyError
                | Some a2 \<Rightarrow>
                    (case (if a1 > a2 then (u1, u2) else (u2, u1)) of (older, younger) \<Rightarrow>
                       (case sample_dm_text older younger g1 of
                          Inl e \<Rightarrow> Inl e
                        | Inr (text, g2) \<Rightarrow>
                            (case randint 0 60 g2 of (days, g3) \<Rightarrow>
                               (case interactions_loop user_ids ages (i + 1) k g3 of
                                  Inl e \<Rightarrow> Inl e
                                | Inr (rows, g4) \<Rightarrow>
                                    Inr (\<lparr>interaction_id = ''i'' @ str_nat (i + 1),
                                           from_user = older, to_user = younger,
                                           dm_type = ''dm'', dm_text = text,
                                           dm_timestamp = days\<rparr> # rows, g4))))))))"

definition generate_interactions ::
  "nat user list \<Rightarrow> nat \<Rightarrow> rng \<Rightarrow> py_error + (nat interaction list \<times> rng)" where
  "generate_interactions users_df n_interactions g =
     interactions_loop (map user_id users_df) (ages_dict users_df) 0 n_interactions g"

section \<open>Files\<close>

text \<open>
  A file system maps a path to a directory or to the bytes of a regular file.  \<open>path_div\<close> is
  pathlib's \<open>/\<close> for a relative right operand.  \<open>read_text\<close> is
  \<open>Path.read_text(encoding="utf-8")\<close>: it raises on a directory and on bytes that are not
  UTF-8, and it reads in text mode, which turns \<open>\r\n\<close> and \<open>\r\<close> into \<open>\n\<close>.
\<close>

datatype entry = Directory | File string

type_synonym filesystem = "string \<Rightarrow> entry option"

datatype os_error = FileNotFoundError | FileExistsError | IsADirectory | UnicodeDecode

definition path_div :: "string \<Rightarrow> string \<Rightarrow> string" where
  "path_div d name = d @ ''/'' @ name"

definition path_exists :: "filesystem \<Rightarrow> string \<Rightarrow> bool" where
  "path_exists fs p \<longleftrightarrow> fs p \<noteq> None"

fun utf8_valid :: "nat list \<Rightarrow> bool" where
  "utf8_valid [] = True"
| "utf8_valid (b # bs) =
     (if b < 0x80 then utf8_valid bs
      else if 0xC2 \<le> b \<and> b \<le> 0xDF then
        0x80 \<le> hd (bs @ [0]) \<and> hd (bs @ [0]) \<le> 0xBF \<and> 1 \<le> length bs \<and> utf8_valid (drop 1 bs)
      else if 0xE0 \<le> b \<and> b \<le> 0xEF then
        2 \<le> length bs
        \<and> (if b = 0xE0 then 0xA0 else 0x80) \<le> bs ! 0
        \<and> bs ! 0 \<le> (if b = 0xED then 0x9F else 0xBF)
        \<and> 0x80 \<le> bs ! 1 \<and> bs ! 1 \<le> 0xBF
        \<and> utf8_valid (drop 2 bs)
      else if 0xF0 \<le> b \<and> b \<le> 0xF4 then
        3 \<le> length bs
        \<and> (if b = 0xF0 then 0x90 else 0x80) \<le> bs ! 0
        \<and> bs ! 0 \<le> (if b = 0xF4 then 0x8F else 0xBF)
        \<and> 0x80 \<le> bs ! 1 \<and> bs ! 1 \<le> 0xBF
        \<and> 0x80 \<le> bs ! 2 \<and> bs ! 2 \<le> 0xBF
        \<and> utf8_valid (drop 3 bs)
      else False)"

fun universal_newlines :: "string \<Rightarrow> string" where
  "universal_newlines [] = []"
| "universal_newlines [c] = [if c = CHR 0x0D then CHR 0x0A else c]"
| "universal_newlines (c # d # s) =
     (if c = CHR 0x0D then
        (if d = CHR 0x0A then CHR 0x0A # universal_newlines s
         else CHR 0x0A # universal_newlines (d # s))
      else c # universal_newlines (d # s))"

definition read_text :: "filesystem \<Rightarrow> string \<Rightarrow> os_error + string" where
  "read_text fs p =
     (case fs p of
        None \<Rightarrow> Inl FileNotFoundError
      | Some Directory \<Rightarrow> Inl IsADirectory
      | Some (File bytes) \<Rightarrow>
          if utf8_valid (map of_char bytes) then Inr (universal_newlines bytes)
          else Inl UnicodeDecode)"

text \<open>
  \<open>save_data\<close> (generator): creates the directory and writes the three tables; the CSV text
  of a table (\<open>DataFrame.to_csv\<close>) is a parameter.  \<open>main_paths\<close> are the paths the generator's
  \<open>main\<close> reports, for its arguments \<open>out_dir\<close> and \<open>prefix\<close>.
\<close>

definition save_data ::
  "string \<Rightarrow> string \<Rightarrow> string \<Rightarrow> string \<Rightarrow> string \<Rightarrow> filesystem \<Rightarrow> os_error + filesystem" where
  "save_data data_dir prefix users posts interactions fs =
     (case fs data_dir of
        Some (File bytes) \<Rightarrow> Inl FileExistsError
      | _ \<Rightarrow>
          Inr (fs(data_dir \<mapsto> Directory,
                  path_div data_dir (prefix @ ''_users.csv'') \<mapsto> File users,
                  path_div data_dir (prefix @ ''_posts.csv'') \<mapsto> File posts,
                  path_div data_dir (prefix @ ''_interactions.csv'') \<mapsto> File interactions)))"

section \<open>app.py\<close>

definition POLICY_PATH :: string where
  "POLICY_PATH = path_div ''policies'' ''safety_policies.txt''"

text \<open>
  \<open>load_data\<close> (dashboard): reads three files of the directory \<open>data\<close>.  The result is the
  text of the three files; parsing the CSV text (\<open>pandas.read_csv\<close>) is not modelled.
\<close>

definition load_data :: "filesystem \<Rightarrow> os_error + (string \<times> string \<times> string)" where
  "load_data fs =
     (let data_dir = ''data'' in
      case read_text fs (path_div data_dir ''users.csv'') of
        Inl e \<Rightarrow> Inl e
      | Inr users \<Rightarrow>
          (case read_text fs (path_div data_dir ''posts.csv'') of
             Inl e \<Rightarrow> Inl e
           | Inr posts \<Rightarrow>
               (case read_text fs (path_div data_dir ''interactions.csv'') of
                  Inl e \<Rightarrow> Inl e
                | Inr interactions \<Rightarrow> Inr (users, posts, interactions))))"

definition load_policies :: "filesystem \<Rightarrow> os_error + string" where
  "load_policies fs =
     (if path_exists fs POLICY_PATH then read_text fs POLICY_PATH
      else Inr ''No policies found.'')"

section \<open>The json module\<close>

text \<open>
  \<open>json.loads\<close> and \<open>json.dumps\<close> belong to the standard library, not to the repository.
  The agents call them, so they are modelled here after the library's decoder
  (\<open>json.decoder\<close>, \<open>json.scanner\<close>) and encoder, on strings of UTF-8 bytes: \<open>None\<close> is
  the decoder raising an exception (JSONDecodeError, RecursionError or ValueError; the
  agents catch them all alike).

  What the decoder takes from the interpreter is the record \<open>decoder\<close>: \<open>parse_float\<close> is
  \<open>float()\<close>, taking the text of a float literal to the text that denotes its value;
  \<open>recursion_limit\<close> is the number of nested lists and dicts the scanner may enter before
  it raises RecursionError (what is left of \<open>sys.getrecursionlimit()\<close> when \<open>json.loads\<close> is
  called); \<open>int_max_str_digits\<close> is \<open>sys.get_int_max_str_digits()\<close>, the number of digits
  above which \<open>int()\<close> raises ValueError (\<open>0\<close>: no limit).  \<open>default_decoder\<close> holds the
  interpreter's defaults \<open>1000\<close> (the whole limit, so at least what is left of it) and
  \<open>4300\<close>; its \<open>parse_float\<close> keeps the text of the literal, which is \<open>float()\<close> on a
  literal that is the text Python prints for its value, such as \<open>1.5\<close>, and it is evaluated
  only on replies whose float literals are such.  The general statements about the agents
  below take the decoder as a parameter.
\<close>

record decoder =
  parse_float :: "string \<Rightarrow> string"
  recursion_limit :: nat
  int_max_str_digits :: nat

definition default_decoder :: decoder where
  "default_decoder = \<lparr>parse_float = (\<lambda>t. t), recursion_limit = 1000, int_max_str_digits = 4300\<rparr>"

definition is_ws :: "char \<Rightarrow> bool" where
  "is_ws c \<longleftrightarrow> c = CHR '' '' \<or> c = CHR 0x09 \<or> c = CHR 0x0A \<or> c = CHR 0x0D"

definition skip_ws :: "string \<Rightarrow> string" where
  "skip_ws s = dropWhile is_ws s"

definition is_digit :: "char \<Rightarrow> bool" where
  "is_digit c \<longleftrightarrow> (48::nat) \<le> of_char c \<and> of_char c \<le> (57::nat)"

definition nat_of_digits :: "string \<Rightarrow> nat" where
  "nat_of_digits ds = foldl (\<lambda>a c. 10 * a + (of_char c - 48)) 0 ds"

text \<open>
  The number pattern of the scanner,
  \<^verbatim>\<open>(-?(?:0|[1-9][0-9]*))(\.[0-9]+)?([eE][-+]?[0-9]+)?\<close>, group by group: each function
  returns the text its group matched and the rest of the input.
\<close>

definition int_literal :: "string \<Rightarrow> (string \<times> string) option" where
  "int_literal s =
     (case (case s of [] \<Rightarrow> ([], s) | c # r \<Rightarrow> if c = CHR ''-'' then ([c], r) else ([], s)) of
        (sign, r) \<Rightarrow>
          (case r of
             [] \<Rightarrow> None
           | c # r1 \<Rightarrow>
               if c = CHR ''0'' then Some (sign @ [c], r1)
               else if is_digit c then Some (sign @ takeWhile is_digit r, dropWhile is_digit r)
               else None))"

definition frac_literal :: "string \<Rightarrow> string \<times> string" where
  "frac_literal s =
     (case s of
        [] \<Rightarrow> ([], s)
      | c # r \<Rightarrow>
          if c = CHR ''.'' \<and> takeWhile is_digit r \<noteq> []
          then (c # takeWhile is_digit r, dropWhile is_digit r)
          else ([], s))"

definition exp_literal :: "string \<Rightarrow> string \<times> string" where
  "exp_literal s =
     (case s of
        [] \<Rightarrow> ([], s)
      | c # r \<Rightarrow>
          if c = CHR ''e'' \<or> c = CHR ''E'' then
            (case (case r of [] \<Rightarrow> ([], r)
                   | d # r1 \<Rightarrow> if d = CHR ''+'' \<or> d = CHR ''-'' then ([d], r1) else ([], r)) of
               (sign, r2) \<Rightarrow>
                 if takeWhile is_digit r2 \<noteq> []
                 then (c # sign @ takeWhile is_digit r2, dropWhile is_digit r2)
                 else ([], s))
          else ([], s))"

definition int_of_literal :: "string \<Rightarrow> int" where
  "int_of_literal t =
     (case t of
        [] \<Rightarrow> 0
      | c # ds \<Rightarrow> if c = CHR ''-'' then - int (nat_of_digits ds) else int (nat_of_digits t))"

text \<open>
  A literal without fraction and exponent is read by \<open>int()\<close>, which raises ValueError when
  it has more digits than \<open>int_max_str_digits\<close>; any other literal is read by \<open>float()\<close>.
\<close>

definition match_number :: "decoder \<Rightarrow> string \<Rightarrow> (pyval \<times> string) option" where
  "match_number dec s =
     (case int_literal s of
        None \<Rightarrow> None
      | Some (integer, r) \<Rightarrow>
          (case frac_literal r of (fraction, r1) \<Rightarrow>
             (case exp_literal r1 of (exponent, r2) \<Rightarrow>
                if fraction = [] \<and> exponent = [] then
                  (if int_max_str_digits dec \<noteq> 0
                      \<and> int_max_str_digits dec < length (filter is_digit integer)
                   then None
                   else Some (PInt (int_of_literal integer), r2))
                else Some (PFloat (parse_float dec (integer @ fraction @ exponent)), r2))))"

text \<open>
  String literals (\<open>scanstring\<close>, strict mode).  The argument starts after the opening quote;
  the result is the decoded text and the input after the closing quote.  A \<open>\uXXXX\<close> escape
  yields the UTF-8 bytes of its code point, a surrogate pair those of the joined code point.
\<close>

definition hex_val :: "char \<Rightarrow> nat option" where
  "hex_val c =
     (let n = (of_char c :: nat) in
      if 48 \<le> n \<and> n \<le> 57 then Some (n - 48)
      else if 97 \<le> n \<and> n \<le> 102 then Some (n - 87)
      else if 65 \<le> n \<and> n \<le> 70 then Some (n - 55)
      else None)"

definition hex4 :: "string \<Rightarrow> nat option" where
  "hex4 t =
     (case map hex_val t of
        [Some a, Some b, Some c, Some d] \<Rightarrow> Some (((a * 16 + b) * 16 + c) * 16 + d)
      | _ \<Rightarrow> None)"

definition utf8 :: "nat \<Rightarrow> string" where
  "utf8 cp =
     (if cp < 0x80 then [char_of cp]
      else if cp < 0x800 then [char_of (0xC0 + cp div 64), char_of (0x80 + cp mod 64)]
      else if cp < 0x10000 then
        [char_of (0xE0 + cp div 4096), char_of (0x80 + cp div 64 mod 64),
         char_of (0x80 + cp mod 64)]
      else
        [char_of (0xF0 + cp div 262144), char_of (0x80 + cp div 4096 mod 64),
         char_of (0x80 + cp div 64 mod 64), char_of (0x80 + cp mod 64)])"

definition backslash :: "char \<Rightarrow> char option" where
  "backslash e =
     (if e = CHR 0x22 then Some (CHR 0x22)
      else if e = CHR 0x5C then Some (CHR 0x5C)
      else if e = CHR ''/'' then Some (CHR ''/'')
      else if e = CHR ''b'' then Some (CHR 0x08)
      else if e = CHR ''f'' then Some (CHR 0x0C)
      else if e = CHR ''n'' then Some (CHR 0x0A)
      else if e = CHR ''r'' then Some (CHR 0x0D)
      else if e = CHR ''t'' then Some (CHR 0x09)
      else None)"

definition prepend :: "string \<Rightarrow> (string \<times> string) option \<Rightarrow> (string \<times> string) option" where
  "prepend t res = (case res of None \<Rightarrow> None | Some (u, r) \<Rightarrow> Some (t @ u, r))"

fun scanstring :: "string \<Rightarrow> (string \<times> string) option" where
  "scanstring [] = None"
| "scanstring (c # s) =
     (if c = CHR 0x22 then Some ([], s)
      else if c = CHR 0x5C then
        (case s of
           [] \<Rightarrow> None
         | e # s1 \<Rightarrow>
             if e = CHR ''u'' then
               (case hex4 (take 4 s1) of
                  None \<Rightarrow> None
                | Some uni \<Rightarrow>
                    if 0xD800 \<le> uni \<and> uni \<le> 0xDBFF \<and> take 2 (drop 4 s1) = [CHR 0x5C, CHR ''u'']
                    then
                      (case hex4 (take 4 (drop 6 s1)) of
                         None \<Rightarrow> None
                       | Some uni2 \<Rightarrow>
                           if 0xDC00 \<le> uni2 \<and> uni2 \<le> 0xDFFF
                           then prepend (utf8 (0x10000 + (uni - 0xD800) * 1024 + (uni2 - 0xDC00)))
                                  (scanstring (drop 10 s1))
                           else prepend (utf8 uni) (scanstring (drop 4 s1)))
                    else prepend (utf8 uni) (scanstring (drop 4 s1)))
             else
               (case backslash e of
                  None \<Rightarrow> None
                | Some x \<Rightarrow> prepend [x] (scanstring s1)))
      else if (of_char c :: nat) < 0x20 then None
      else prepend [c] (scanstring s))"

text \<open>\<open>dict(pairs)\<close>: a repeated key keeps its first position and takes the last value.\<close>

definition dict :: "(string \<times> pyval) list \<Rightarrow> (string \<times> pyval) list" where
  "dict pairs = foldl (\<lambda>d (k, v). AList.update k v d) [] pairs"

text \<open>
  \<open>scan_once\<close> with the array and object loops (\<open>JSONArray\<close>, \<open>JSONObject\<close>).  The second
  argument bounds the number of calls: every call consumes a character, and \<open>json_loads\<close>
  starts it with the length of the input.  The third argument is what is left of the
  recursion limit: entering a list or a dict takes one level, and with none left the
  scanner raises RecursionError.
\<close>

fun scan_once :: "decoder \<Rightarrow> nat \<Rightarrow> nat \<Rightarrow> string \<Rightarrow> (pyval \<times> string) option"
  and array_items :: "decoder \<Rightarrow> nat \<Rightarrow> nat \<Rightarrow> string \<Rightarrow> (pyval list \<times> string) option"
  and object_items ::
    "decoder \<Rightarrow> nat \<Rightarrow> nat \<Rightarrow> string \<Rightarrow> ((string \<times> pyval) list \<times> string) option"
where
  "scan_once dec 0 depth s = None"
| "scan_once dec (Suc n) depth s =
     (case s of
        [] \<Rightarrow> None
      | c # r \<Rightarrow>
          if c = CHR 0x22 then
            (case scanstring r of None \<Rightarrow> None | Some (t, r1) \<Rightarrow> Some (PStr t, r1))
          else if c = CHR ''{'' then
            (if depth = 0 then None
             else
               (case skip_ws r of
                  [] \<Rightarrow> None
                | d # r1 \<Rightarrow>
                    if d = CHR ''}'' then Some (PDict [], r1)
                    else if d = CHR 0x22 then
                      (case object_items dec n (depth - 1) r1 of
                         None \<Rightarrow> None
                       | Some (pairs, r2) \<Rightarrow> Some (PDict (dict pairs), r2))
                    else None))
          else if c = CHR ''['' then
            (if depth = 0 then None
             else
               (case skip_ws r of
                  [] \<Rightarrow> None
                | d # r1 \<Rightarrow>
                    if d = CHR '']'' then Some (PList [], r1)
                    else
                      (case array_items dec n (depth - 1) (d # r1) of
                         None \<Rightarrow> None
                       | Some (values, r2) \<Rightarrow> Some (PList values, r2))))
          else if take 4 s = ''null'' then Some (PNone, drop 4 s)
          else if take 4 s = ''true'' then Some (PBool True, drop 4 s)
          else if take 5 s = ''false'' then Some (PBool False, drop 5 s)
          else
            (case match_number dec s of
               Some res \<Rightarrow> Some res
             | None \<Rightarrow>
                 if take 3 s = ''NaN'' then Some (PFloat ''NaN'', drop 3 s)
                 else if take 8 s = ''Infinity'' then Some (PFloat ''Infinity'', drop 8 s)
                 else if take 9 s = ''-Infinity'' then Some (PFloat ''-Infinity'', drop 9 s)
                 else None))"
| "array_items dec 0 depth s = None"
| "array_items dec (Suc n) depth s =
     (case scan_once dec n depth s of
        None \<Rightarrow> None
      | Some (v, r) \<Rightarrow>
          (case skip_ws r of
             [] \<Rightarrow> None
           | c # r1 \<Rightarrow>
               if c = CHR '']'' then Some ([v], r1)
               else if c = CHR '','' then
                 (case array_items dec n depth (skip_ws r1) of
                    None \<Rightarrow> None
                  | Some (values, r2) \<Rightarrow> Some (v # values, r2))
               else None))"
| "object_items dec 0 depth s = None"
| "object_items dec (Suc n) depth s =
     (case scanstring s of
        None \<Rightarrow> None
      | Some (key, r) \<Rightarrow>
          (case skip_ws r of
             [] \<Rightarrow> None
           | c # r1 \<Rightarrow>
               if c = CHR '':'' then
                 (case scan_once dec n depth (skip_ws r1) of
                    None \<Rightarrow> None
                  | Some (v, r2) \<Rightarrow>
                      (case skip_ws r2 of
                         [] \<Rightarrow> None
                       | d # r3 \<Rightarrow>
                           if d = CHR ''}'' then Some ([(key, v)], r3)
                           else if d = CHR '','' then
                             (case skip_ws r3 of
                                [] \<Rightarrow> None
                              | q # r4 \<Rightarrow>
                                  if q = CHR 0x22 then
                                    (case object_items dec n depth r4 of
                                       None \<Rightarrow> None
                                     | Some (pairs, r5) \<Rightarrow> Some ((key, v) # pairs, r5))
                                  else None)
                           else None))
               else None))"

definition json_loads :: "decoder \<Rightarrow> string \<Rightarrow> pyval option" where
  "json_loads dec s =
     (case scan_once dec (length s) (recursion_limit dec) (skip_ws s) of
        None \<Rightarrow> None
      | Some (obj, r) \<Rightarrow> if skip_ws r = [] then Some obj else None)"

text \<open>
  \<open>json.dumps(obj, ensure_ascii=False)\<close>, the call the agents make: the separators are
  \<open>", "\<close> and \<open>": "\<close>; in a string only the quote, the backslash and the control characters
  are escaped.
\<close>

definition hex_digit :: "nat \<Rightarrow> char" where
  "hex_digit d = (if d < 10 then char_of (48 + d) else char_of (87 + d))"

definition escape_char :: "char \<Rightarrow> string" where
  "escape_char c =
     (if c = CHR 0x22 then [CHR 0x5C, CHR 0x22]
      else if c = CHR 0x5C then [CHR 0x5C, CHR 0x5C]
      else if c = CHR 0x0A then [CHR 0x5C, CHR ''n'']
      else if c = CHR 0x0D then [CHR 0x5C, CHR ''r'']
      else if c = CHR 0x09 then [CHR 0x5C, CHR ''t'']
      else if c = CHR 0x08 then [CHR 0x5C, CHR ''b'']
      else if c = CHR 0x0C then [CHR 0x5C, CHR ''f'']
      else if (of_char c :: nat) < 0x20 then
        [CHR 0x5C, CHR ''u'', CHR ''0'', CHR ''0'',
         hex_digit (of_char c div 16), hex_digit (of_char c mod 16)]
      else [c])"

definition encode_basestring :: "string \<Rightarrow> string" where
  "encode_basestring s = CHR 0x22 # concat (map escape_char s) @ [CHR 0x22]"

definition str_int :: "int \<Rightarrow> string" where
  "str_int i = (if i < 0 then CHR ''-'' # str_nat (nat (- i)) else str_nat (nat i))"

fun join :: "string \<Rightarrow> string list \<Rightarrow> string" where
  "join sep [] = []"
| "join sep [x] = x"
| "join sep (x # y # ys) = x @ sep @ join sep (y # ys)"

fun json_dumps :: "pyval \<Rightarrow> string" where
  "json_dumps PNone = ''null''"
| "json_dumps (PBool b) = (if b then ''true'' else ''false'')"
| "json_dumps (PInt i) = str_int i"
| "json_dumps (PFloat t) = t"
| "json_dumps (PStr s) = encode_basestring s"
| "json_dumps (PList values) = ''['' @ join '', '' (map json_dumps values) @ '']''"
| "json_dumps (PDict pairs) =
     ''{'' @ join '', '' (map (\<lambda>(k, v). encode_basestring k @ '': '' @ json_dumps v) pairs) @ ''}''"

section \<open>agents.py\<close>

text \<open>
  The hosted completion endpoint is outside the program.  One call of
  \<open>client.chat.completions.create\<close> either raises (with a message), or returns a response
  without the expected fields, or returns a response whose \<open>choices[0].message.content\<close>
  is \<open>None\<close> or a string.  The endpoint is a function of the requests made so far and of the
  request; the state of the world is the list of the requests made.  The five system
  prompts are fixed texts (f-strings whose only variable is the constant project name); a
  prompt is named here by its agent and its text is not reproduced.
\<close>

datatype template =
    Underage_prompt
  | Content_prompt
  | Interaction_prompt
  | Policy_prompt
  | Report_prompt

record request =
  model :: string
  system_prompt :: template
  user_content :: string
  max_tokens :: nat

datatype completion =
    Request_failed string
  | Unexpected_shape
  | Content "string option"

type_synonym endpoint = "request list \<Rightarrow> request \<Rightarrow> completion"

definition LLM_MODEL :: string where
  "LLM_MODEL = ''gpt-4o-mini''"

text \<open>\<open>s.rfind(c)\<close> for a single character: the highest index of \<open>c\<close> in \<open>s\<close>, or \<open>-1\<close>.\<close>

definition rfind :: "string \<Rightarrow> char \<Rightarrow> int" where
  "rfind s c =
     (if c \<in> set s then int (length s) - 1 - int (length (takeWhile (\<lambda>x. x \<noteq> c) (rev s)))
      else - 1)"

text \<open>
  \<open>_run_json_agent\<close>.  The first argument is the decoder \<open>json.loads\<close> (\<open>None\<close>: it raises).
  The result is the value returned and the list of requests made.  When the strict parse
  fails and the reply holds no \<open>{\<close>, no \<open>return\<close> statement is reached and the function
  returns \<open>None\<close>.  For a content of \<open>None\<close> both \<open>json.loads\<close> and \<open>content.rfind\<close> raise, and
  the inner handler returns the error object.
\<close>

definition run_json_agent ::
  "(string \<Rightarrow> pyval option) \<Rightarrow> endpoint \<Rightarrow> template \<Rightarrow> string \<Rightarrow> nat \<Rightarrow> request list
     \<Rightarrow> pyval \<times> request list" where
  "run_json_agent loads client system_prompt' user_content' max_tokens' calls =
     (let req = \<lparr>model = LLM_MODEL, system_prompt = system_prompt',
                  user_content = user_content', max_tokens = max_tokens'\<rparr>;
          calls1 = calls @ [req]
      in case client calls req of
           Request_failed e \<Rightarrow> (PDict [(''error'', PStr (''LLM request failed: '' @ e))], calls1)
         | Unexpected_shape \<Rightarrow> (PDict [(''error'', PStr ''unexpected LLM response format'')], calls1)
         | Content None \<Rightarrow>
             (PDict [(''error'', PStr ''failed to parse JSON''), (''raw'', PNone)], calls1)
         | Content (Some content) \<Rightarrow>
             (case loads content of
                Some v \<Rightarrow> (v, calls1)
              | None \<Rightarrow>
                  (let idx = rfind content (CHR ''{'') in
                   if idx \<noteq> - 1 then
                     (case loads (drop (nat idx) content) of
                        Some v \<Rightarrow> (v, calls1)
                      | None \<Rightarrow>
                          (PDict [(''error'', PStr ''failed to parse JSON''),
                                  (''raw'', PStr content)], calls1))
                   else (PNone, calls1))))"

definition underage_risk_agent ::
  "(string \<Rightarrow> pyval option) \<Rightarrow> endpoint \<Rightarrow> pyval \<Rightarrow> pyval \<Rightarrow> request list
     \<Rightarrow> pyval \<times> request list" where
  "underage_risk_agent loads client user_profile posts calls =
     (let user_str = json_dumps user_profile;
          posts_str = json_dumps posts
      in run_json_agent loads client Underage_prompt
           (''USER_PROFILE:\<newline>'' @ user_str @ ''\<newline>\<newline>SAMPLE_POSTS:\<newline>'' @ posts_str) 400 calls)"

definition content_risk_agent ::
  "(string \<Rightarrow> pyval option) \<Rightarrow> endpoint \<Rightarrow> pyval \<Rightarrow> request list \<Rightarrow> pyval \<times> request list" where
  "content_risk_agent loads client posts calls =
     run_json_agent loads client Content_prompt (json_dumps posts) 1000 calls"

definition interaction_risk_agent ::
  "(string \<Rightarrow> pyval option) \<Rightarrow> endpoint \<Rightarrow> pyval \<Rightarrow> pyval \<Rightarrow> request list
     \<Rightarrow> pyval \<times> request list" where
  "interaction_risk_agent loads client user_profile interactions calls =
     (let payload = PDict [(''user_profile'', user_profile), (''interactions'', interactions)]
      in run_json_agent loads client Interaction_prompt (json_dumps payload) 800 calls)"

definition policy_violation_agent ::
  "(string \<Rightarrow> pyval option) \<Rightarrow> endpoint \<Rightarrow> string \<Rightarrow> pyval \<Rightarrow> request list
     \<Rightarrow> pyval \<times> request list" where
  "policy_violation_agent loads client policy_text aggregated_findings calls =
     (let payload = PDict [(''policies'', PStr policy_text), (''findings'', aggregated_findings)]
      in run_json_agent loads client Policy_prompt (json_dumps payload) 600 calls)"

definition report_generator_agent ::
  "(string \<Rightarrow> pyval option) \<Rightarrow> endpoint \<Rightarrow> pyval \<Rightarrow> pyval \<Rightarrow> pyval \<Rightarrow> pyval \<Rightarrow> pyval
     \<Rightarrow> request list \<Rightarrow> pyval \<times> request list" where
  "report_generator_agent loads client user_profile underage content interactions
       policy_result calls =
     (let payload = PDict [(''user_profile'', user_profile), (''underage'', underage),
                           (''content'', content), (''interactions'', interactions),
                           (''policy_result'', policy_result)]
      in run_json_agent loads client Report_prompt (json_dumps payload) 900 calls)"

section \<open>app.py: the audit\<close>

text \<open>
  \<open>main\<close>, from the tables and the policy text that \<open>load_data\<close> and \<open>load_policies\<close> returned
  to the five results of the audit.  The tables have the generator's columns, a date being
  the text of its cell.  \<open>getenv\<close> is the value of \<open>os.getenv("OPENAI_API_KEY")\<close>, \<open>clicked\<close>
  the value of \<open>st.button\<close>.  What \<open>main\<close> prints is not modelled; its outcome is the error
  message of the key check, or the five results that the report view shows.
\<close>

record audit =
  underage_res :: pyval
  content_res :: pyval
  interaction_res :: pyval
  policy_res :: pyval
  report_res :: pyval

datatype outcome = No_click | Key_error | Audit_completed audit

definition PROJECT_NAME :: string where
  "PROJECT_NAME = ''SafeScroll''"

fun startswith :: "string \<Rightarrow> string \<Rightarrow> bool" where
  "startswith s [] = True"
| "startswith [] (c # sub) = False"
| "startswith (x # s) (c # sub) = (x = c \<and> startswith s sub)"

text \<open>\<open>contains s sub\<close> is the test \<open>sub in s\<close> on strings.\<close>

fun contains :: "string \<Rightarrow> string \<Rightarrow> bool" where
  "contains [] sub = (sub = [])"
| "contains (x # s) sub = (startswith (x # s) sub \<or> contains s sub)"

definition user_to_dict :: "string user \<Rightarrow> pyval" where
  "user_to_dict u =
     PDict [(''user_id'', PStr (user_id u)), (''age'', PInt (age u)),
            (''account_type'', PStr (account_type u)), (''created_at'', PStr (created_at u))]"

definition interaction_to_dict :: "string interaction \<Rightarrow> (string \<times> pyval) list" where
  "interaction_to_dict r =
     [(''interaction_id'', PStr (interaction_id r)), (''from_user'', PStr (from_user r)),
      (''to_user'', PStr (to_user r)), (''type'', PStr (dm_type r)),
      (''text'', PStr (dm_text r)), (''timestamp'', PStr (dm_timestamp r))]"

text \<open>The canned results of the demo mode.\<close>

definition demo_underage :: pyval where
  "demo_underage =
     PDict [(''is_minor_suspected'', PBool True),
            (''underage_misrepresentation_risk'', PInt 72),
            (''reason'',
             PStr ''User posts indicate teenage language patterns and age-related topics.'')]"

definition demo_content :: "string post list \<Rightarrow> pyval" where
  "demo_content user_posts_df =
     PDict [(''per_post'',
             PList [PDict
               [(''post_id'', PStr (case user_posts_df of [] \<Rightarrow> ''p1'' | p # rest \<Rightarrow> post_id p)),
                (''text'', PStr (case user_posts_df of [] \<Rightarrow> [] | p # rest \<Rightarrow> post_text p)),
                (''bullying_risk'', PStr ''none''),
                (''self_harm_risk'', PStr ''low''),
                (''sexual_exploitation_risk'', PStr ''none''),
                (''substance_abuse_risk'', PStr ''low''),
                (''notes'',
                 PStr ''Some references to substance use and low-level self-harm language.'')]]),
            (''overall'',
             PDict
               [(''bullying_risk'', PStr ''low''),
                (''self_harm_risk'', PStr ''low''),
                (''sexual_exploitation_risk'', PStr ''none''),
                (''substance_abuse_risk'', PStr ''low''),
                (''summary'',
                 PStr (''Low-to-moderate concerns primarily around substance references ''
                       @ ''and self-harm wording.''))])]"

definition demo_interaction :: "string interaction list \<Rightarrow> pyval" where
  "demo_interaction user_interactions_df =
     PDict [(''grooming_risk'', PStr ''medium''),
            (''evidence'',
             PList [PDict
               [(''interaction_id'',
                 PStr (case user_interactions_df of [] \<Rightarrow> ''i1'' | r # rest \<Rightarrow> interaction_id r)),
                (''text_snippet'',
                 PStr (case user_interactions_df of
                         [] \<Rightarrow> ''Don't tell anyone we talk here.''
                       | r # rest \<Rightarrow> dm_text r)),
                (''comment'', PStr ''Secrecy and older-user behavior detected.'')]]),
            (''summary'',
             PStr ''Some age-imbalanced conversations and secrecy cues were observed.'')]"

definition demo_policy :: pyval where
  "demo_policy =
     PDict [(''violated_sections'', PList [PStr ''Underage Safety'', PStr ''Substance Use Policy'']),
            (''overall_severity'', PStr ''medium''),
            (''recommended_action'', PStr ''monitor''),
            (''explanation'',
             PStr (''Behavior matches medium-risk guidelines; recommend monitoring and a ''
                   @ ''warning if escalates.''))]"

definition demo_report :: pyval where
  "demo_report =
     PDict [(''risk_title'', PStr (PROJECT_NAME @ '' Automated Safety Report'')),
            (''overall_risk_score'', PInt 62),
            (''risk_summary'', PStr ''Moderate concerns detected. Monitoring recommended.''),
            (''markdown_report'',
             PStr (''### Summary\<newline>''
               @ ''Moderate concerns detected in posts and DMs. Evidence suggests ''
               @ ''age-imbalanced interactions and ''
               @ ''mentions of substance use. Recommended action: monitor and warn if ''
               @ ''behavior escalates.\<newline>\<newline>''
               @ ''### Evidence\<newline>- Secrecy in DMs: 'Don't tell anyone we talk here.'\<newline>''
               @ ''- Post: 'Trying pills for the first time haha.'\<newline>\<newline>''
               @ ''### Recommendation\<newline>- Monitor the account for escalation\<newline>''
               @ ''- Send a precautionary warning message\<newline>''
               @ ''- Escalate to human safety team if further evidence appears.''))]"

definition main ::
  "(string \<Rightarrow> pyval option) \<Rightarrow> endpoint \<Rightarrow> string option \<Rightarrow> bool
     \<Rightarrow> string user list \<Rightarrow> string post list \<Rightarrow> string interaction list \<Rightarrow> string \<Rightarrow> string
     \<Rightarrow> request list \<Rightarrow> (py_error + outcome) \<times> request list" where
  "main loads client getenv clicked users posts interactions policies_text selected_user_id calls =
     (case filter (\<lambda>u. user_id u = selected_user_id) users of
        [] \<Rightarrow> (Inl IndexError, calls)
      | selected # others \<Rightarrow>
          (let user_row = user_to_dict selected;
               user_posts_df = filter (\<lambda>p. post_user_id p = selected_user_id) posts;
               user_interactions_df =
                 filter (\<lambda>r. from_user r = selected_user_id \<or> to_user r = selected_user_id)
                   interactions;
               DEMO_MODE = (getenv = None \<or> getenv = Some [])
           in if \<not> clicked then (Inr No_click, calls)
              else if DEMO_MODE then
                (Inr (Audit_completed
                   \<lparr>underage_res = demo_underage,
                    content_res = demo_content user_posts_df,
                    interaction_res = demo_interaction user_interactions_df,
                    policy_res = demo_policy,
                    report_res = demo_report\<rparr>), calls)
              else
                (let api_key = (case getenv of None \<Rightarrow> [] | Some k \<Rightarrow> k) in
                 if api_key = [] \<or> contains api_key ''YOUR_OPENAI_API_KEY_HERE''
                 then (Inr Key_error, calls)
                 else
                   (let posts_payload =
                          PList (map (\<lambda>p. PDict [(''post_id'', PStr (post_id p)),
                                                   (''text'', PStr (post_text p))]) user_posts_df);
                        users_age_map = ages_dict users;
                        inter_payload =
                          PList (map (\<lambda>row.
                            PDict (interaction_to_dict row
                              @ [(''from_age'',
                                  PInt (case users_age_map (from_user row) of
                                          None \<Rightarrow> - 1 | Some a \<Rightarrow> a)),
                                 (''to_age'',
                                  PInt (case users_age_map (to_user row) of
                                          None \<Rightarrow> - 1 | Some a \<Rightarrow> a))]))
                            user_interactions_df)
                    in case underage_risk_agent loads client user_row posts_payload calls of
                         (underage, calls1) \<Rightarrow>
                      (case content_risk_agent loads client posts_payload calls1 of
                         (content, calls2) \<Rightarrow>
                      (case interaction_risk_agent loads client user_row inter_payload calls2 of
                         (interaction, calls3) \<Rightarrow>
                      (let aggregated_findings =
                             PDict [(''underage'', underage), (''content'', content),
                                    (''interactions'', interaction)]
                       in case policy_violation_agent loads client policies_text
                                 aggregated_findings calls3 of
                            (policy, calls4) \<Rightarrow>
                         (case report_generator_agent loads client user_row underage content
                                 interaction policy calls4 of
                            (report, calls5) \<Rightarrow>
                              (Inr (Audit_completed
                                 \<lparr>underage_res = underage, content_res = content,
                                  interaction_res = interaction, policy_res = policy,
                                  report_res = report\<rparr>), calls5)))))))))"


section \<open>Sample tables\<close>

text \<open>
  Small tables on which the statements below are evaluated: \<open>two_users\<close> is what
  \<open>generate_users\<close> returns for two users and the draws \<open>0, 1, 2, 3\<close>; \<open>sample_users\<close> and
  \<open>sample_posts\<close> are tables as the dashboard reads them.
\<close>

definition two_users :: "nat user list" where
  "two_users =
     [\<lparr>user_id = ''u1'', age = 13, account_type = ''business'', created_at = 0\<rparr>,
      \<lparr>user_id = ''u2'', age = 14, account_type = ''standard'', created_at = 1\<rparr>]"

definition sample_users :: "string user list" where
  "sample_users =
     [\<lparr>user_id = ''u1'', age = 15, account_type = ''standard'', created_at = ''2024-01-01''\<rparr>,
      \<lparr>user_id = ''u2'', age = 30, account_type = ''creator'', created_at = ''2024-01-02''\<rparr>]"

definition sample_posts :: "string post list" where
  "sample_posts =
     [\<lparr>post_id = ''p1'', post_user_id = ''u1'', post_text = ''Exam went well today.'',
       post_timestamp = ''2024-03-02''\<rparr>,
      \<lparr>post_id = ''p6'', post_user_id = ''u2'', post_text = ''Got so drunk last night lol.'',
       post_timestamp = ''2024-03-05''\<rparr>]"

section \<open>The values of the round trip\<close>

text \<open>
  The round trip of \<open>json_dumps\<close> and \<open>json_loads\<close> is stated for the values \<open>json_value\<close>
  of a decoder: no key twice in a dict (a Python dict never has one); every integer within
  the decoder's limit of digits; every float either infinite or printed as a float literal
  (\<open>number_text\<close>) that \<open>float()\<close> reads back as the same float.  The float NaN, which does
  not equal itself, is none of them.  \<open>nesting\<close> is the number of lists and dicts around the
  innermost value, and \<open>nest k\<close> is the dict \<open>{"a": {"a": ... {}}}\<close> of nesting \<open>k + 1\<close>.

  The other notions serve the proofs: \<open>nodes\<close> bounds the number of calls that decoding a
  value needs, \<open>array_rest\<close> and \<open>object_rest\<close> are what \<open>json_dumps\<close> prints after the first
  element of a list or dict, \<open>delim\<close> holds of the text that may follow a value and
  \<open>value_start\<close> of the character a printed value starts with.
\<close>

definition number_text :: "string \<Rightarrow> bool" where
  "number_text t \<longleftrightarrow>
     (case int_literal t of
        None \<Rightarrow> False
      | Some (integer, r) \<Rightarrow>
          (case frac_literal r of (fraction, r1) \<Rightarrow>
             (case exp_literal r1 of (exponent, r2) \<Rightarrow>
                r2 = [] \<and> (fraction \<noteq> [] \<or> exponent \<noteq> []))))"

fun json_value :: "decoder \<Rightarrow> pyval \<Rightarrow> bool" where
  "json_value dec (PFloat t) =
     (t = ''Infinity'' \<or> t = ''-Infinity'' \<or> (number_text t \<and> parse_float dec t = t))"
| "json_value dec (PInt i) =
     (int_max_str_digits dec = 0 \<or> length (str_nat (nat \<bar>i\<bar>)) \<le> int_max_str_digits dec)"
| "json_value dec (PList vs) = list_all (json_value dec) vs"
| "json_value dec (PDict ps) =
     (distinct (map fst ps) \<and> list_all (\<lambda>kv. json_value dec (snd kv)) ps)"
| "json_value dec v = True"

fun nesting :: "pyval \<Rightarrow> nat" where
  "nesting (PList vs) = Suc (foldr max (map nesting vs) 0)"
| "nesting (PDict ps) = Suc (foldr max (map (\<lambda>kv. nesting (snd kv)) ps) 0)"
| "nesting v = 0"

fun nest :: "nat \<Rightarrow> pyval" where
  "nest 0 = PDict []"
| "nest (Suc k) = PDict [(''a'', nest k)]"


fun array_rest :: "pyval list \<Rightarrow> string \<Rightarrow> string" where
  "array_rest [] rest = CHR '']'' # rest"
| "array_rest (v # vs) rest = '', '' @ json_dumps v @ array_rest vs rest"

fun object_rest :: "(string \<times> pyval) list \<Rightarrow> string \<Rightarrow> string" where
  "object_rest [] rest = CHR ''}'' # rest"
| "object_rest (kv # ps) rest =
     '', '' @ encode_basestring (fst kv) @ '': '' @ json_dumps (snd kv) @ object_rest ps rest"

definition delim :: "string \<Rightarrow> bool" where
  "delim rest \<longleftrightarrow>
     (case rest of [] \<Rightarrow> True | c # r \<Rightarrow> c = CHR '','' \<or> c = CHR '']'' \<or> c = CHR ''}'')"


section \<open>Properties of the generator\<close>

lemma choice_nonempty:
  assumes "xs \<noteq> []"
  shows "\<exists>x g1. choice xs g = Inr (x, g1) \<and> x \<in> set xs"
  using assms by (simp add: choice_def randbelow_def)

lemma pool_nonempty:
  "risky_self_harm \<noteq> []" "risky_bully \<noteq> []" "risky_grooming \<noteq> []"
  "risky_substance \<noteq> []" "safe \<noteq> []"
  by (simp_all add: risky_self_harm_def risky_bully_def risky_grooming_def
      risky_substance_def safe_def)

lemma substance_apart:
  "set risky_substance \<inter> set (risky_self_harm @ risky_bully @ risky_grooming @ safe) = {}"
  by (simp add: risky_self_harm_def risky_bully_def risky_grooming_def
      risky_substance_def safe_def)

lemma self_harm_apart:
  "set risky_self_harm \<inter> set (risky_substance @ risky_grooming @ risky_bully @ safe) = {}"
  by (simp add: risky_self_harm_def risky_bully_def risky_grooming_def
      risky_substance_def safe_def)

lemma sample_post_text_minor:
  assumes "user_age < 18"
  shows "\<exists>t g1. sample_post_text user_age g = Inr (t, g1)
           \<and> t \<in> set (risky_self_harm @ risky_bully @ risky_grooming @ safe)"
proof -
  obtain bucket g0 where rf: "random_float g = (bucket, g0)"
    by fastforce
  note c = choice_nonempty [of _ g0]
  show ?thesis
    using assms rf c [OF pool_nonempty(1)] c [OF pool_nonempty(2)]
      c [OF pool_nonempty(3)] c [OF pool_nonempty(5)]
    by (auto simp: sample_post_text_def)
qed

lemma sample_post_text_adult:
  assumes "\<not> user_age < 18"
  shows "\<exists>t g1. sample_post_text user_age g = Inr (t, g1)
           \<and> t \<in> set (risky_substance @ risky_grooming @ risky_bully @ safe)"
proof -
  obtain bucket g0 where rf: "random_float g = (bucket, g0)"
    by fastforce
  note c = choice_nonempty [of _ g0]
  show ?thesis
    using assms rf c [OF pool_nonempty(4)] c [OF pool_nonempty(2)]
      c [OF pool_nonempty(3)] c [OF pool_nonempty(5)]
    by (auto simp: sample_post_text_def)
qed

text \<open>
  Claim C10.  \<open>sample_post_text\<close> always returns a text, and the text is one of the fixed
  pools; for an age below 18 it is not a text of the substance-abuse pool, for an age of 18
  or above it is not a text of the self-harm pool.  (The five pools have no text in
  common, so a text that is not in a pool was not drawn from it.)
\<close>

theorem sample_post_text_partition:
  "\<exists>t g1. sample_post_text user_age g = Inr (t, g1)
     \<and> t \<in> set (risky_self_harm @ risky_bully @ risky_grooming @ risky_substance @ safe)
     \<and> (user_age < 18 \<longrightarrow> t \<notin> set risky_substance)
     \<and> (18 \<le> user_age \<longrightarrow> t \<notin> set risky_self_harm)"
proof (cases rule: case_split [of "user_age < 18"])
  case True
  from sample_post_text_minor [OF True, of g] obtain t g1
    where r: "sample_post_text user_age g = Inr (t, g1)"
      and m: "t \<in> set (risky_self_harm @ risky_bully @ risky_grooming @ safe)"
    by blast
  from m substance_apart have "t \<notin> set risky_substance" by blast
  with r m True show ?thesis by auto
next
  case False
  from sample_post_text_adult [OF False, of g] obtain t g1
    where r: "sample_post_text user_age g = Inr (t, g1)"
      and m: "t \<in> set (risky_substance @ risky_grooming @ risky_bully @ safe)"
    by blast
  from m self_harm_apart have "t \<notin> set risky_self_harm" by blast
  with r m False show ?thesis by auto
qed

theorem sample_post_text_partition_witness:
  "(15::int) < 18
   \<and> (\<exists>t g1. sample_post_text 15 (\<lambda>i. 0) = Inr (t, g1) \<and> t \<notin> set risky_substance)
   \<and> (18::int) \<le> 21
   \<and> (\<exists>t g1. sample_post_text 21 (\<lambda>i. 0) = Inr (t, g1) \<and> t \<notin> set risky_self_harm)"
  using sample_post_text_partition [of 15 "\<lambda>i. 0"] sample_post_text_partition [of 21 "\<lambda>i. 0"]
  by auto

subsection \<open>Decimal numerals are injective\<close>

lemma nat_of_digits_snoc:
  "nat_of_digits (ds @ [c]) = 10 * nat_of_digits ds + (of_char c - 48)"
  by (simp add: nat_of_digits_def)

lemma of_char_digit_char: "d < 10 \<Longrightarrow> (of_char (digit_char d) :: nat) = 48 + d"
  by (simp add: digit_char_def)

lemma nat_of_digits_str_nat: "nat_of_digits (str_nat n) = n"
proof (induction n rule: str_nat.induct)
  case (1 n)
  show ?case
  proof (cases rule: case_split [of "n < 10"])
    case True
    then show ?thesis
      by (simp add: str_nat.simps [of n] nat_of_digits_def of_char_digit_char)
  next
    case False
    then have "nat_of_digits (str_nat (n div 10)) = n div 10"
      using "1.IH" by simp
    with False show ?thesis
      by (simp add: str_nat.simps [of n] nat_of_digits_snoc of_char_digit_char)
  qed
qed

lemma str_nat_inj: "str_nat m = str_nat n \<Longrightarrow> m = n"
  by (metis nat_of_digits_str_nat)

lemma user_ids_distinct: "distinct (map (\<lambda>i. ''u'' @ str_nat (i + 1)) [0..<n])"
  by (auto simp: distinct_map inj_on_def dest: str_nat_inj)

subsection \<open>The users table\<close>

lemma choices_total:
  assumes "pool \<noteq> []"
  shows "\<exists>xs g1. choices pool n g = Inr (xs, g1) \<and> length xs = n"
proof (induction n arbitrary: g)
  case 0
  show ?case by simp
next
  case (Suc n)
  from choice_nonempty [OF assms, of g] obtain x g1 where c: "choice pool g = Inr (x, g1)"
    by blast
  from Suc [of g1] obtain xs g2 where r: "choices pool n g1 = Inr (xs, g2)" "length xs = n"
    by blast
  from c r show ?case by simp
qed

lemma generate_users_ids:
  "\<exists>users g1. generate_users n g = Inr (users, g1)
     \<and> map user_id users = map (\<lambda>i. ''u'' @ str_nat (i + 1)) [0..<n]"
proof -
  obtain ages g1 where a: "choices [13, 14, 15, 16, 17, 18, 21, 25, 30::int] n g = Inr (ages, g1)"
    using choices_total [of "[13, 14, 15, 16, 17, 18, 21, 25, 30::int]" n g] by auto
  obtain types g2 where b: "choices [''standard'', ''creator'', ''business''] n g1 = Inr (types, g2)"
    using choices_total [of "[''standard'', ''creator'', ''business'']" n g1] by auto
  show ?thesis
    using a b by (simp add: generate_users_def Let_def comp_def cong: map_cong)
qed

subsection \<open>The posts table\<close>

lemma sample_post_text_total: "\<exists>t g1. sample_post_text user_age g = Inr (t, g1)"
proof -
  obtain bucket g0 where rf: "random_float g = (bucket, g0)"
    by fastforce
  have ne: "risky_self_harm \<noteq> []" "risky_bully \<noteq> []" "risky_grooming \<noteq> []"
    "risky_substance \<noteq> []" "safe \<noteq> []"
    by (simp_all add: risky_self_harm_def risky_bully_def risky_grooming_def
        risky_substance_def safe_def)
  note c = choice_nonempty [of _ g0]
  show ?thesis
    using rf c [OF ne(1)] c [OF ne(2)] c [OF ne(3)] c [OF ne(4)] c [OF ne(5)]
    by (auto simp: sample_post_text_def)
qed

lemma user_posts_total:
  "\<exists>rows g1. user_posts row k pid g = Inr (rows, g1) \<and> (\<forall>p\<in>set rows. post_user_id p = user_id row)"
proof (induction k arbitrary: pid g)
  case 0
  show ?case by simp
next
  case (Suc k)
  obtain t g1 where s: "sample_post_text (age row) g = Inr (t, g1)"
    using sample_post_text_total by blast
  obtain days g2 where d: "randint 0 60 g1 = (days, g2)"
    by fastforce
  from Suc [of "pid + 1" g2] obtain rows g3
    where r: "user_posts row k (pid + 1) g2 = Inr (rows, g3)"
      "\<forall>p\<in>set rows. post_user_id p = user_id row"
    by blast
  from s d r show ?case by simp
qed

lemma posts_loop_total:
  "\<exists>rows g1. posts_loop users_df k pid g = Inr (rows, g1)
     \<and> (\<forall>p\<in>set rows. post_user_id p \<in> user_id ` set users_df)"
proof (induction users_df arbitrary: pid g)
  case Nil
  show ?case by simp
next
  case (Cons row rest)
  from user_posts_total [of row k pid g] obtain rows g1
    where a: "user_posts row k pid g = Inr (rows, g1)" "\<forall>p\<in>set rows. post_user_id p = user_id row"
    by blast
  from Cons [of "pid + k" g1] obtain rows2 g2
    where b: "posts_loop rest k (pid + k) g1 = Inr (rows2, g2)"
      "\<forall>p\<in>set rows2. post_user_id p \<in> user_id ` set rest"
    by blast
  from a b show ?case by auto
qed

subsection \<open>The interactions table\<close>

lemma sample2_distinct:
  assumes d: "distinct xs" and s: "sample2 xs g = Inr ((u1, u2), g1)"
  shows "u1 \<in> set xs \<and> u2 \<in> set xs \<and> u1 \<noteq> u2"
proof -
  let ?n = "length xs"
  let ?j = "g 0 mod ?n"
  let ?j2 = "g 1 mod (?n - 1)"
  from s have n: "2 \<le> ?n"
    by (simp add: sample2_def Let_def split: if_splits)
  from s n have u1: "u1 = xs ! ?j" and u2: "u2 = (xs[?j := xs ! (?n - 1)]) ! ?j2"
    by (simp_all add: sample2_def Let_def randbelow_def)
  have j: "?j < ?n"
    using n by (intro mod_less_divisor) auto
  have j2: "?j2 < ?n - 1"
    using n by (intro mod_less_divisor) auto
  show ?thesis
  proof (cases rule: case_split [of "?j2 = ?j"])
    case True
    then have "u2 = xs ! (?n - 1)"
      using u2 j by simp
    moreover have "?j \<noteq> ?n - 1"
      using True j2 by simp
    ultimately show ?thesis
      using u1 j n d by (simp add: nth_eq_iff_index_eq)
  next
    case False
    then have "u2 = xs ! ?j2"
      using u2 by simp
    then show ?thesis
      using u1 j j2 False d by (simp add: nth_eq_iff_index_eq)
  qed
qed

lemma interactions_loop_rows:
  assumes "interactions_loop user_ids ages i k g = Inr (rows, g1)"
  shows "\<forall>r\<in>set rows. \<exists>a b. ages (from_user r) = Some a \<and> ages (to_user r) = Some b \<and> b \<le> a"
  using assms
proof (induction k arbitrary: i g rows g1)
  case 0
  then show ?case by simp
next
  case (Suc k)
  then show ?case
    by (fastforce split: sum.splits prod.splits option.splits if_splits)
qed

lemma interactions_loop_ids:
  assumes "distinct user_ids" "interactions_loop user_ids ages i k g = Inr (rows, g1)"
  shows "\<forall>r\<in>set rows. from_user r \<in> set user_ids \<and> to_user r \<in> set user_ids
           \<and> from_user r \<noteq> to_user r"
  using assms(2)
proof (induction k arbitrary: i g rows g1)
  case 0
  then show ?case by simp
next
  case (Suc k)
  from Suc.prems obtain u1 u2 g2 where s: "sample2 user_ids g = Inr ((u1, u2), g2)"
    by (auto split: sum.splits prod.splits)
  note sd = sample2_distinct [OF assms(1) s]
  from Suc.prems s sd Suc.IH show ?case
    by (fastforce split: sum.splits prod.splits option.splits if_splits)
qed


lemma ages_dict_SomeD:
  "ages_dict users_df k = Some a \<Longrightarrow> \<exists>u\<in>set users_df. user_id u = k \<and> age u = a"
  by (auto simp: ages_dict_def dest!: map_of_SomeD)

lemma ages_dict_dom:
  "k \<in> set (map user_id users_df) \<Longrightarrow> \<exists>a. ages_dict users_df k = Some a"
proof -
  assume "k \<in> set (map user_id users_df)"
  then have "k \<in> fst ` set (rev (map (\<lambda>u. (user_id u, age u)) users_df))"
    by force
  then show ?thesis
    unfolding ages_dict_def by (metis map_of_eq_None_iff not_Some_eq)
qed

lemma sample_dm_text_total: "\<exists>t g1. sample_dm_text older younger g = Inr (t, g1)"
proof -
  obtain x g0 where rf: "random_float g = (x, g0)"
    by fastforce
  have ne: "risky \<noteq> []" "neutral \<noteq> []"
    by (simp_all add: risky_def neutral_def)
  show ?thesis
    using rf choice_nonempty [OF ne(1), of g0] choice_nonempty [OF ne(2), of g0]
    by (auto simp: sample_dm_text_def)
qed

lemma sample2_total:
  assumes "2 \<le> length xs"
  shows "\<exists>u1 u2 g1. sample2 xs g = Inr ((u1, u2), g1) \<and> u1 \<in> set xs \<and> u2 \<in> set xs"
proof -
  let ?n = "length xs"
  have j: "g 0 mod ?n < ?n"
    using assms by (intro mod_less_divisor) auto
  have j2: "g (Suc 0) mod (?n - 1) < ?n - 1"
    using assms by (intro mod_less_divisor) auto
  have j2': "g (Suc 0) mod (?n - 1) < ?n"
    using j2 by (rule less_le_trans) simp
  have l: "?n - 1 < ?n"
    using assms by simp
  have "(xs[g 0 mod ?n := xs ! (?n - 1)]) ! (g (Suc 0) mod (?n - 1)) \<in> set xs"
    using j nth_mem [OF j2'] nth_mem [OF l] by (simp add: nth_list_update)
  then show ?thesis
    using assms j by (simp add: sample2_def Let_def randbelow_def)
qed

lemma interactions_loop_total:
  assumes "2 \<le> length user_ids" "\<forall>u\<in>set user_ids. \<exists>a. ages u = Some a"
  shows "\<exists>rows g1. interactions_loop user_ids ages i k g = Inr (rows, g1) \<and> length rows = k"
proof (induction k arbitrary: i g)
  case 0
  show ?case by simp
next
  case (Suc k)
  from sample2_total [OF assms(1), of g] obtain u1 u2 g1
    where s: "sample2 user_ids g = Inr ((u1, u2), g1)" "u1 \<in> set user_ids" "u2 \<in> set user_ids"
    by blast
  from s assms(2) obtain a1 a2 where a: "ages u1 = Some a1" "ages u2 = Some a2"
    by blast
  obtain older younger where o: "(if a1 > a2 then (u1, u2) else (u2, u1)) = (older, younger)"
    by fastforce
  obtain t g2 where d: "sample_dm_text older younger g1 = Inr (t, g2)"
    using sample_dm_text_total by blast
  obtain days g3 where r: "randint 0 60 g2 = (days, g3)"
    by fastforce
  from Suc [of "i + 1" g3] obtain rows g4
    where l: "interactions_loop user_ids ages (i + 1) k g3 = Inr (rows, g4)" "length rows = k"
    by blast
  show ?case
    using s(1) a o d r l by (simp del: sample2_def)
qed

text \<open>
  Claim C9.  In every row that \<open>generate_interactions\<close> returns, the sender \<open>from_user\<close> and
  the recipient \<open>to_user\<close> are ids of rows of the users table, and the declared age of the
  sender (the age the generator looked up for it) is at least that of the recipient.
\<close>

theorem interactions_sender_not_younger:
  assumes "generate_interactions users_df n_interactions g = Inr (rows, g1)"
  shows "\<forall>r\<in>set rows. \<exists>sender\<in>set users_df. \<exists>recipient\<in>set users_df.
           user_id sender = from_user r \<and> user_id recipient = to_user r
           \<and> ages_dict users_df (from_user r) = Some (age sender)
           \<and> ages_dict users_df (to_user r) = Some (age recipient)
           \<and> age recipient \<le> age sender"
proof
  fix r assume "r \<in> set rows"
  with interactions_loop_rows [OF assms [unfolded generate_interactions_def]] obtain a b
    where ab: "ages_dict users_df (from_user r) = Some a" "ages_dict users_df (to_user r) = Some b"
      "b \<le> a"
    by blast
  from ages_dict_SomeD [OF ab(1)] ages_dict_SomeD [OF ab(2)] ab
  show "\<exists>sender\<in>set users_df. \<exists>recipient\<in>set users_df.
           user_id sender = from_user r \<and> user_id recipient = to_user r
           \<and> ages_dict users_df (from_user r) = Some (age sender)
           \<and> ages_dict users_df (to_user r) = Some (age recipient)
           \<and> age recipient \<le> age sender"
    by blast
qed

text \<open>
  Claim C7.  \<open>generate_users\<close> always returns a table.  For that table, \<open>generate_posts\<close>
  returns rows whose \<open>user_id\<close> is a \<open>user_id\<close> of the table, and every row that
  \<open>generate_interactions\<close> returns has a \<open>from_user\<close> and a \<open>to_user\<close> that are two
  different ids of the table.  (\<open>generate_interactions\<close> returns when the table has at least
  two rows; on a smaller table \<open>random.sample\<close> raises.)
\<close>

theorem generated_tables_reference_users:
  "\<exists>users g1. generate_users n g = Inr (users, g1)
     \<and> (\<exists>posts g3. generate_posts users posts_per_user g2 = Inr (posts, g3)
           \<and> (\<forall>p\<in>set posts. post_user_id p \<in> user_id ` set users))
     \<and> (\<forall>rows g5. generate_interactions users n_interactions g4 = Inr (rows, g5)
           \<longrightarrow> (\<forall>r\<in>set rows. from_user r \<in> user_id ` set users
                  \<and> to_user r \<in> user_id ` set users \<and> from_user r \<noteq> to_user r))
     \<and> (2 \<le> n \<longrightarrow> (\<exists>rows g5. generate_interactions users n_interactions g4 = Inr (rows, g5)
                        \<and> length rows = n_interactions))"
proof -
  from generate_users_ids [of n g] obtain users g1
    where u: "generate_users n g = Inr (users, g1)"
      and ids: "map user_id users = map (\<lambda>i. ''u'' @ str_nat (i + 1)) [0..<n]"
    by blast
  have d: "distinct (map user_id users)"
    using ids user_ids_distinct [of n] by simp
  have len: "length (map user_id users) = n"
    using ids by simp
  have p: "\<exists>posts g3. generate_posts users posts_per_user g2 = Inr (posts, g3)
           \<and> (\<forall>p\<in>set posts. post_user_id p \<in> user_id ` set users)"
    unfolding generate_posts_def by (rule posts_loop_total)
  have i: "\<forall>rows g5. generate_interactions users n_interactions g4 = Inr (rows, g5)
           \<longrightarrow> (\<forall>r\<in>set rows. from_user r \<in> user_id ` set users
                  \<and> to_user r \<in> user_id ` set users \<and> from_user r \<noteq> to_user r)"
    using interactions_loop_ids [OF d] unfolding generate_interactions_def by fastforce
  have t: "2 \<le> n \<longrightarrow> (\<exists>rows g5. generate_interactions users n_interactions g4 = Inr (rows, g5)
                        \<and> length rows = n_interactions)"
  proof
    assume "2 \<le> n"
    then have "2 \<le> length (map user_id users)"
      using len by simp
    moreover have "\<forall>k\<in>set (map user_id users). \<exists>a. ages_dict users k = Some a"
      using ages_dict_dom by blast
    ultimately show "\<exists>rows g5. generate_interactions users n_interactions g4 = Inr (rows, g5)
                        \<and> length rows = n_interactions"
      unfolding generate_interactions_def by (rule interactions_loop_total)
  qed
  from u p i t show ?thesis by blast
qed


lemma str_nat_small:
  "str_nat (Suc 0) = ''1''" "str_nat (Suc (Suc 0)) = ''2''" "str_nat 1 = ''1''" "str_nat 2 = ''2''"
  by code_simp+

lemma generate_users_two: "generate_users (Suc (Suc 0)) (\<lambda>i. i) = Inr (two_users, \<lambda>i. Suc (Suc (Suc (Suc i))))"
  by (simp add: generate_users_def two_users_def choice_def randbelow_def str_nat_small)

lemma generate_interactions_two: "generate_interactions two_users (Suc 0) (\<lambda>i. 0)
  = Inr ([\<lparr>interaction_id = ''i1'', from_user = ''u2'', to_user = ''u1'', dm_type = ''dm'',
           dm_text = ''Don't tell anyone we talk here.'', dm_timestamp = 0\<rparr>], \<lambda>i. 0)"
  by (simp add: generate_interactions_def two_users_def sample2_def randbelow_def ages_dict_def
     sample_dm_text_def random_float_def choice_def risky_def randint_def Let_def
     str_nat_small)

lemma generate_posts_two: "generate_posts two_users (Suc 0) (\<lambda>i. 0)
  = Inr ([\<lparr>post_id = ''p1'', post_user_id = ''u1'', post_text = ''I feel like nothing matters anymore.'',
            post_timestamp = 0\<rparr>,
          \<lparr>post_id = ''p2'', post_user_id = ''u2'', post_text = ''I feel like nothing matters anymore.'',
            post_timestamp = 0\<rparr>], \<lambda>i. 0)"
  by (simp add: generate_posts_def two_users_def sample_post_text_def randbelow_def
     random_float_def choice_def risky_self_harm_def randint_def
     str_nat_small)

theorem interactions_sender_not_younger_witness:
  "generate_interactions two_users (Suc 0) (\<lambda>i. 0)
     = Inr ([\<lparr>interaction_id = ''i1'', from_user = ''u2'', to_user = ''u1'', dm_type = ''dm'',
              dm_text = ''Don't tell anyone we talk here.'', dm_timestamp = 0\<rparr>], \<lambda>i. 0)
   \<and> ages_dict two_users ''u2'' = Some 14 \<and> ages_dict two_users ''u1'' = Some 13
   \<and> (\<exists>sender\<in>set two_users. \<exists>recipient\<in>set two_users.
           user_id sender = ''u2'' \<and> user_id recipient = ''u1''
           \<and> age recipient \<le> age sender)"
  using interactions_sender_not_younger [OF generate_interactions_two] generate_interactions_two
  by (simp add: ages_dict_def two_users_def)

theorem generated_tables_reference_users_witness:
  "\<exists>users g1. generate_users (Suc (Suc 0)) (\<lambda>i. i) = Inr (users, g1)
     \<and> map user_id users = [''u1'', ''u2'']
     \<and> (\<exists>posts g3. generate_posts users (Suc 0) (\<lambda>i. 0) = Inr (posts, g3)
           \<and> map post_user_id posts = [''u1'', ''u2''])
     \<and> (\<exists>rows g5. generate_interactions users (Suc 0) (\<lambda>i. 0) = Inr (rows, g5)
           \<and> map (\<lambda>r. (from_user r, to_user r)) rows = [(''u2'', ''u1'')])"
  using generated_tables_reference_users [of "Suc (Suc 0)" "\<lambda>i. i" "Suc 0" "\<lambda>i. 0" "Suc 0" "\<lambda>i. 0"]
    generate_users_two generate_interactions_two generate_posts_two
  by (simp add: two_users_def)

section \<open>Properties of the files\<close>

text \<open>
  Claim C5.  The generator, run with its default arguments on an empty file system, writes
  \<open>data/safescroll_users.csv\<close>, \<open>data/safescroll_posts.csv\<close> and
  \<open>data/safescroll_interactions.csv\<close>; the dashboard reads \<open>data/users.csv\<close>,
  \<open>data/posts.csv\<close> and \<open>data/interactions.csv\<close>.  After \<open>save_data\<close> the path
  \<open>data/users.csv\<close> does not exist and \<open>load_data\<close> raises FileNotFoundError: the paths
  written are not the paths read.
\<close>

theorem save_data_not_read_by_load_data:
  "\<exists>fs'. save_data ''data'' ''safescroll'' users posts interactions Map.empty = Inr fs'
      \<and> fs' (path_div ''data'' ''safescroll_users.csv'') = Some (File users)
      \<and> fs' (path_div ''data'' ''safescroll_posts.csv'') = Some (File posts)
      \<and> fs' (path_div ''data'' ''safescroll_interactions.csv'') = Some (File interactions)
      \<and> fs' (path_div ''data'' ''users.csv'') = None
      \<and> load_data fs' = Inl FileNotFoundError"
  by (simp add: save_data_def load_data_def read_text_def path_div_def)

lemma universal_newlines_id:
  "CHR 0x0D \<notin> set s \<Longrightarrow> universal_newlines s = s"
  by (induction s rule: universal_newlines.induct) auto

text \<open>
  Claim C8, as stated, fails: \<open>load_policies\<close> raises when the policy path is a directory,
  and when the file's bytes are not UTF-8.
\<close>

theorem load_policies_raises:
  "load_policies (Map.empty(POLICY_PATH \<mapsto> Directory)) = Inl IsADirectory
   \<and> load_policies (Map.empty(POLICY_PATH \<mapsto> File [CHR 0xFF])) = Inl UnicodeDecode"
  by (simp add: load_policies_def path_exists_def read_text_def)

text \<open>
  Claim C8, amended.  When nothing exists at the policy path, \<open>load_policies\<close> returns the
  text \<open>No policies found.\<close>; when the path is a regular file whose bytes are UTF-8, it
  returns the file's text (with \<open>\r\n\<close> and \<open>\r\<close> read as \<open>\n\<close>, so the bytes themselves when
  they hold no \<open>\r\<close>); when the bytes are not UTF-8, or the path is a directory, it raises.
\<close>

theorem load_policies_cases:
  "(fs POLICY_PATH = None \<longrightarrow> load_policies fs = Inr ''No policies found.'')
   \<and> (\<forall>bytes. fs POLICY_PATH = Some (File bytes) \<and> utf8_valid (map of_char bytes)
         \<longrightarrow> load_policies fs = Inr (universal_newlines bytes)
             \<and> (CHR 0x0D \<notin> set bytes \<longrightarrow> load_policies fs = Inr bytes))
   \<and> (\<forall>bytes. fs POLICY_PATH = Some (File bytes) \<and> \<not> utf8_valid (map of_char bytes)
         \<longrightarrow> load_policies fs = Inl UnicodeDecode)
   \<and> (fs POLICY_PATH = Some Directory \<longrightarrow> load_policies fs = Inl IsADirectory)"
  by (simp add: load_policies_def path_exists_def read_text_def universal_newlines_id)

theorem load_policies_cases_witness:
  "Map.empty POLICY_PATH = None
   \<and> load_policies Map.empty = Inr ''No policies found.''
   \<and> (Map.empty(POLICY_PATH \<mapsto> File ''Rule 1'')) POLICY_PATH = Some (File ''Rule 1'')
   \<and> utf8_valid (map of_char ''Rule 1'')
   \<and> CHR 0x0D \<notin> set ''Rule 1''
   \<and> load_policies (Map.empty(POLICY_PATH \<mapsto> File ''Rule 1'')) = Inr ''Rule 1''"
  using load_policies_cases [of Map.empty]
    load_policies_cases [of "Map.empty(POLICY_PATH \<mapsto> File ''Rule 1'')"]
  by simp

section \<open>Properties of the json module\<close>

subsection \<open>Strings\<close>






lemma scan_encode_basestring:
  "encode_basestring s @ rest = CHR 0x22 # (concat (map escape_char s) @ CHR 0x22 # rest)"
  by (simp add: encode_basestring_def)

subsection \<open>Integers\<close>
















subsection \<open>Floats\<close>












subsection \<open>Lists and dicts\<close>







lemma skip_ws_punct:
  "skip_ws (CHR '','' # s) = CHR '','' # s" "skip_ws (CHR '']'' # s) = CHR '']'' # s"
  "skip_ws (CHR ''}'' # s) = CHR ''}'' # s" "skip_ws (CHR '':'' # s) = CHR '':'' # s"
  "skip_ws (CHR 0x22 # s) = CHR 0x22 # s" "skip_ws [] = []"
  "skip_ws (CHR '' '' # s) = skip_ws s"
  by (simp_all add: skip_ws_def is_ws_def)

lemma delim_array_rest: "delim (array_rest vs rest)"
  by (cases vs) (simp_all add: delim_def)

lemma delim_object_rest: "delim (object_rest ps rest)"
  by (cases ps) (simp_all add: delim_def)











subsection \<open>The number of calls\<close>





subsection \<open>Beyond the recursion limit\<close>

lemma nesting_nest: "nesting (nest k) = Suc k"
  by (induction k) simp_all

lemma json_value_nest: "json_value dec (nest k)"
  by (induction k) simp_all

lemma json_dumps_nest_Suc:
  \<open>json_dumps (nest (Suc k)) = ''{"a": '' @ json_dumps (nest k) @ ''}''\<close>
  by (simp add: encode_basestring_def escape_char_def)

lemma json_dumps_nest_Cons: "\<exists>s. json_dumps (nest k) = CHR ''{'' # s"
  by (cases k) simp_all

lemma scan_once_nest_too_deep:
  "depth \<le> k \<Longrightarrow> scan_once dec n depth (json_dumps (nest k) @ rest) = None"
proof (induction k arbitrary: n depth rest)
  case 0
  then show ?case
    by (cases n) simp_all
next
  case (Suc k)
  obtain s where s: "json_dumps (nest k) = CHR ''{'' # s"
    using json_dumps_nest_Cons by blast
  show ?case
  proof (cases n)
    case 0
    then show ?thesis by simp
  next
    case n: (Suc m)
    show ?thesis
    proof (cases depth)
      case 0
      then show ?thesis
        by (simp add: n json_dumps_nest_Suc del: json_dumps.simps nest.simps)
    next
      case d: (Suc d)
      then have dk: "d \<le> k"
        using Suc.prems by simp
      show ?thesis
      proof (cases m)
        case 0
        then show ?thesis
          by (simp add: n d json_dumps_nest_Suc skip_ws_punct del: json_dumps.simps nest.simps)
      next
        case m: (Suc m')
        have inner: "scan_once dec m' d (CHR ''{'' # s @ CHR ''}'' # rest) = None"
          using Suc.IH [OF dk, of m' "CHR ''}'' # rest"] s by simp
        have sk: "skip_ws (CHR '' '' # CHR ''{'' # s @ CHR ''}'' # rest)
            = CHR ''{'' # s @ CHR ''}'' # rest"
          by (simp add: skip_ws_def is_ws_def)
        show ?thesis
          using inner sk
          by (simp add: n d m json_dumps_nest_Suc s skip_ws_punct backslash_def prepend_def
              del: json_dumps.simps nest.simps)
      qed
    qed
  qed
qed

lemma json_loads_nest_too_deep:
  assumes "recursion_limit dec \<le> k"
  shows "json_loads dec (json_dumps (nest k)) = None"
proof -
  obtain s where s: "json_dumps (nest k) = CHR ''{'' # s"
    using json_dumps_nest_Cons by blast
  have "skip_ws (json_dumps (nest k)) = json_dumps (nest k)"
    using s by (simp add: skip_ws_def is_ws_def)
  then show ?thesis
    using scan_once_nest_too_deep [OF assms, of dec "length (json_dumps (nest k))" "[]"]
    by (simp add: json_loads_def del: json_dumps.simps)
qed

lemma json_dumps_nest_shape:
  \<open>json_dumps (nest k)
     = concat (replicate k ''{"a": '') @ CHR ''{'' # CHR ''}'' # replicate k (CHR ''}'')\<close>
proof (induction k)
  case 0
  show ?case by simp
next
  case (Suc k)
  have "replicate k (CHR ''}'') @ ''}'' = CHR ''}'' # replicate k (CHR ''}'')"
    by (simp add: replicate_append_same)
  with Suc show ?case
    by (simp add: json_dumps_nest_Suc del: json_dumps.simps nest.simps)
qed

lemma json_loads_innermost:
  assumes "1 \<le> k"
  shows "json_loads dec (CHR ''{'' # CHR ''}'' # replicate k (CHR ''}'')) = None"
proof -
  from assms obtain j where k: "k = Suc j"
    by (cases k) auto
  show ?thesis
  proof (cases rule: case_split [of "recursion_limit dec = 0"])
    case True
    then show ?thesis
      by (simp add: json_loads_def skip_ws_def is_ws_def k)
  next
    case False
    then show ?thesis
      by (simp add: json_loads_def skip_ws_def is_ws_def k)
  qed
qed

section \<open>Properties of the agents\<close>

lemma loads_hello: "json_loads default_decoder ''hello'' = None"
  by code_simp

lemma loads_list: "json_loads default_decoder ''[1, 2]'' = Some (PList [PInt 1, PInt 2])"
  by code_simp

text \<open>
  Claim C1.  The reply \<open>hello\<close> is not JSON and holds no \<open>{\<close>: \<open>_run_json_agent\<close> returns
  \<open>None\<close>, not an error object.  The reply \<open>[1, 2]\<close> is JSON but no object:
  \<open>_run_json_agent\<close> returns the list.
\<close>

theorem run_json_agent_returns_none:
  "fst (run_json_agent (json_loads default_decoder) (\<lambda>calls req. Content (Some ''hello''))
          p u m calls) = PNone
   \<and> fst (run_json_agent (json_loads default_decoder) (\<lambda>calls req. Content (Some ''[1, 2]''))
          p u m calls)
       = PList [PInt 1, PInt 2]"
  by (simp add: run_json_agent_def loads_hello loads_list rfind_def Let_def)

subsection \<open>The fallback\<close>

lemma rfind_last:
  assumes "c \<notin> set rest"
  shows "rfind (pre @ c # rest) c = int (length pre)"
proof -
  have "takeWhile (\<lambda>x. x \<noteq> c) (rev rest @ c # rev pre) = rev rest"
    using assms by (simp add: takeWhile_append)
  then show ?thesis
    by (simp add: rfind_def)
qed

lemma run_json_agent_fallback:
  assumes "loads (pre @ CHR ''{'' # rest) = None"
    and "CHR ''{'' \<notin> set rest"
  shows "fst (run_json_agent loads (\<lambda>calls req. Content (Some (pre @ CHR ''{'' # rest))) p u m calls)
           = (case loads (CHR ''{'' # rest) of
                Some v \<Rightarrow> v
              | None \<Rightarrow> PDict [(''error'', PStr ''failed to parse JSON''),
                              (''raw'', PStr (pre @ CHR ''{'' # rest))])"
  using assms(1)
  by (simp add: run_json_agent_def Let_def rfind_last [OF assms(2)] split: option.splits)











subsection \<open>The round trip\<close>

lemma nest_not_error: "nest k \<noteq> PDict [(''error'', x), y]"
  by (cases k) simp_all

lemma deep_reply:
  assumes "recursion_limit dec \<le> k" and "1 \<le> k"
  shows "fst (run_json_agent (json_loads dec) (\<lambda>calls req. Content (Some (json_dumps (nest k))))
            p u m calls)
           = PDict [(''error'', PStr ''failed to parse JSON''), (''raw'', PStr (json_dumps (nest k)))]"
proof -
  define pre where \<open>pre = concat (replicate k ''{"a": '')\<close>
  define rest where "rest = CHR ''}'' # replicate k (CHR ''}'')"
  have shape: "json_dumps (nest k) = pre @ CHR ''{'' # rest"
    unfolding pre_def rest_def by (rule json_dumps_nest_shape)
  have strict: "json_loads dec (pre @ CHR ''{'' # rest) = None"
    using json_loads_nest_too_deep [OF assms(1)] shape by simp
  have last: "CHR ''{'' \<notin> set rest"
    by (simp add: rest_def)
  have tail: "json_loads dec (CHR ''{'' # rest) = None"
    unfolding rest_def by (rule json_loads_innermost [OF assms(2)])
  show ?thesis
    using run_json_agent_fallback [of "json_loads dec" pre rest p u m calls, OF strict last] tail
    unfolding shape by simp
qed

text \<open>
  Claim C4, as stated, fails.  The dict \<open>nest 1000\<close> is \<open>{"a": {"a": ... {}}}\<close>,
  a thousand and one dicts one inside the other.  When the reply is its serialization, the
  decoder exceeds the recursion limit, the tail from the last \<open>{\<close> is \<open>{}\<close> followed by a
  thousand \<open>}\<close>, and \<open>_run_json_agent\<close> returns the error object, which is not the dict.
\<close>

theorem deep_reply_not_returned:
  "fst (run_json_agent (json_loads default_decoder)
          (\<lambda>calls req. Content (Some (json_dumps (nest 1000)))) Underage_prompt [] 400 [])
     = PDict [(''error'', PStr ''failed to parse JSON''),
              (''raw'', PStr (json_dumps (nest 1000)))]
   \<and> nest 1000 \<noteq> PDict [(''error'', PStr ''failed to parse JSON''),
                         (''raw'', PStr (json_dumps (nest 1000)))]"
proof -
  have "recursion_limit default_decoder \<le> 1000"
    by (simp add: default_decoder_def)
  from deep_reply [OF this, of Underage_prompt "[]" 400 "[]"] nest_not_error [of 1000]
  show ?thesis
    by simp
qed






section \<open>Properties of the dashboard\<close>

text \<open>
  Claim C3, as stated, fails: in demo mode the content result names the first post of the
  selected user, so two users with different posts get different results.
\<close>

theorem demo_mode_depends_on_user:
  "fst (main (json_loads default_decoder) (\<lambda>calls req. Unexpected_shape) None True sample_users sample_posts
          [] [] ''u1'' [])
     \<noteq> fst (main (json_loads default_decoder) (\<lambda>calls req. Unexpected_shape) None True sample_users sample_posts
          [] [] ''u2'' [])"
  by (simp add: main_def sample_users_def sample_posts_def demo_content_def Let_def)

text \<open>
  Claim C3, amended.  When \<open>OPENAI_API_KEY\<close> is unset or empty and the button is clicked
  (for a selected user of the users table), \<open>main\<close> makes no request to the endpoint, and
  whatever the endpoint and the decoder are, its results are the canned ones: the underage,
  policy and report results are fixed literals; the content and interaction results are
  fixed literals but for the id and text of the selected user's first post and first
  interaction (with literal defaults when the user has none).
\<close>

theorem demo_mode_audit:
  assumes demo: "getenv = None \<or> getenv = Some []"
    and sel: "filter (\<lambda>u. user_id u = selected_user_id) users \<noteq> []"
  shows "main loads client getenv True users posts interactions policies_text selected_user_id calls
         = (Inr (Audit_completed
              \<lparr>underage_res = demo_underage,
               content_res = demo_content (filter (\<lambda>p. post_user_id p = selected_user_id) posts),
               interaction_res = demo_interaction
                 (filter (\<lambda>r. from_user r = selected_user_id \<or> to_user r = selected_user_id)
                    interactions),
               policy_res = demo_policy,
               report_res = demo_report\<rparr>), calls)"
  using demo sel by (auto simp: main_def Let_def split: list.splits)

theorem demo_mode_audit_witness:
  "filter (\<lambda>u. user_id u = ''u1'') sample_users \<noteq> []
   \<and> main (json_loads default_decoder) (\<lambda>calls req. Unexpected_shape) (Some []) True sample_users sample_posts
       [] [] ''u1'' []
     = (Inr (Audit_completed
              \<lparr>underage_res = demo_underage,
               content_res = demo_content
                 [\<lparr>post_id = ''p1'', post_user_id = ''u1'', post_text = ''Exam went well today.'',
                   post_timestamp = ''2024-03-02''\<rparr>],
               interaction_res = demo_interaction [],
               policy_res = demo_policy,
               report_res = demo_report\<rparr>), [])"
proof -
  have d: "Some [] = None \<or> Some [] = Some ([] :: string)"
    by simp
  have s: "filter (\<lambda>u. user_id u = ''u1'') sample_users \<noteq> []"
    by (simp add: sample_users_def)
  from demo_mode_audit [OF d s, where loads = "json_loads default_decoder"
      and client = "\<lambda>calls req. Unexpected_shape" and posts = sample_posts
      and interactions = "[]" and policies_text = "[]" and calls = "[]"] s
  show ?thesis
    by (simp add: sample_posts_def)
qed







end
